theory Spec2Isabelle
  imports Complex_Main
begin

section \<open>Errors, spaces and arrays\<close>

text \<open>
  Python exceptions are values. Every \<^verbatim>\<open>raise\<close> and every failing \<^verbatim>\<open>assert\<close> of the
  modelled code is a branch returning \<open>Inl\<close> of one of these.
\<close>

datatype error =
    TypeError string
  | AssertionError string
  | KeyError string
  | AttributeError string
  | ValueError string
  | IndexError string

text \<open>
  The code only ever asks whether an action space is an instance of gym's
  \<^verbatim>\<open>Discrete\<close>. \<open>Discrete n\<close> is that class with \<open>n\<close> actions; \<open>NonDiscrete\<close>
  stands for every other gym space.
\<close>

datatype space = Discrete nat | NonDiscrete

fun isinstance_Discrete :: "space \<Rightarrow> bool" where
  "isinstance_Discrete (Discrete n) = True"
| "isinstance_Discrete NonDiscrete = False"

text \<open>
  A \<^verbatim>\<open>jnp\<close> array is its shape together with its entries in row-major order. The entries
  are read as real numbers: rounding of floating-point arithmetic is outside this model.
\<close>

record ndarray =
  shape :: "nat list"
  data :: "real list"

definition ndim :: "ndarray \<Rightarrow> nat" where
  "ndim x = length (shape x)"

text \<open>Row \<open>i\<close> of a table with \<open>k\<close> columns stored in row-major order.\<close>

definition row :: "nat \<Rightarrow> real list \<Rightarrow> nat \<Rightarrow> real list" where
  "row k xs i = take k (drop (i * k) xs)"

text \<open>The maximum of a non-empty row, accumulated from the left.\<close>

fun row_max :: "real list \<Rightarrow> real" where
  "row_max [] = 0"
| "row_max (x # xs) = fold max xs x"

text \<open>
  \<^verbatim>\<open>jnp.max(Q_s, axis=1)\<close> on a two-dimensional array of shape \<open>[b, k]\<close>: the result has
  shape \<open>[b]\<close>; reducing an axis of size zero has no identity and raises. The source calls
  it only behind \<^verbatim>\<open>assert Q_s.ndim == 2\<close>, so other ranks are not modelled further.
\<close>

definition max_axis1 :: "ndarray \<Rightarrow> error + ndarray" where
  "max_axis1 x =
     (case shape x of
        [b, k] \<Rightarrow>
          if k = 0 then Inl (ValueError ''zero-size array to reduction operation max which has no identity'')
          else Inr \<lparr>shape = [b], data = map (\<lambda>i. row_max (row k (data x) i)) [0..<b]\<rparr>
      | _ \<Rightarrow> Inl (ValueError ''axis 1 is out of bounds''))"

text \<open>
  Elementwise arithmetic on one-dimensional arrays with numpy broadcasting: equal lengths
  combine pointwise, a length-one operand is stretched, anything else raises.
\<close>

definition broadcast :: "(real \<Rightarrow> real \<Rightarrow> real) \<Rightarrow> real list \<Rightarrow> real list \<Rightarrow> error + real list" where
  "broadcast g xs ys =
     (if length xs = length ys then Inr (map2 g xs ys)
      else if length xs = 1 then Inr (map (g (hd xs)) ys)
      else if length ys = 1 then Inr (map (\<lambda>x. g x (hd ys)) xs)
      else Inl (TypeError ''incompatible shapes for broadcasting''))"

text \<open>Subscripting a dict: a missing key raises \<^verbatim>\<open>KeyError\<close>.\<close>

definition getitem :: "(string \<rightharpoonup> 'v) \<Rightarrow> string \<Rightarrow> error + 'v" where
  "getitem d k = (case d k of None \<Rightarrow> Inl (KeyError k) | Some v \<Rightarrow> Inr v)"

section \<open>Value functions, policies and transition batches\<close>

text \<open>
  A q-function owns its parameters, its function state and its action space, and can be
  evaluated in two modes: type 1 maps a batch of states and a batch of actions to one value
  per sample, type 2 maps a batch of states to a table with one column per action. Both
  return the new function state as well. The arguments are, in the order of the source,
  \<^verbatim>\<open>params, state, rng, S, [A,] is_training\<close>.
\<close>

record ('p, 'fs, 'r, 's, 'a) Q =
  params :: 'p
  function_state :: 'fs
  action_space :: space
  function_type1 :: "'p \<Rightarrow> 'fs \<Rightarrow> 'r \<Rightarrow> 's \<Rightarrow> 'a \<Rightarrow> bool \<Rightarrow> ndarray \<times> 'fs"
  function_type2 :: "'p \<Rightarrow> 'fs \<Rightarrow> 'r \<Rightarrow> 's \<Rightarrow> bool \<Rightarrow> ndarray \<times> 'fs"

text \<open>
  A policy maps a batch of states to the parameters of a conditional distribution over
  actions (\<^verbatim>\<open>pi.function\<close>); \<^verbatim>\<open>pi.proba_dist.mode\<close> extracts the greedy action from them.
\<close>

record ('p, 'fs, 'r, 's, 'a, 'd) Policy =
  pi_function :: "'p \<Rightarrow> 'fs \<Rightarrow> 'r \<Rightarrow> 's \<Rightarrow> bool \<Rightarrow> 'd \<times> 'fs"
  proba_dist_mode :: "'d \<Rightarrow> 'a"

text \<open>
  Modelled from the spec: the class \<^verbatim>\<open>TransitionBatch\<close> is not among the sources. Its
  fields are those of the data model, in that order, so that the slice
  \<^verbatim>\<open>transition_batch[3:6]\<close> of \<^verbatim>\<open>target_func\<close> is \<open>(Rn, In, S_next)\<close>.
\<close>

record ('s, 'a) TransitionBatch =
  S :: 's
  A :: 'a
  logp :: "real list"
  Rn :: "real list"
  In :: "real list"
  S_next :: 's
  W :: "real list"
  idx :: "nat list"

section \<open>The Q-learning updater\<close>

text \<open>
  The attributes of a \<^verbatim>\<open>QLearning\<close> object that its own methods read. The value transform
  is a pair \<open>(f, f_inv)\<close> of scalar functions, applied to arrays entry by entry.
\<close>

record ('p, 'fs, 'r, 's, 'a, 'd) QLearning =
  q :: "('p, 'fs, 'r, 's, 'a) Q"
  pi_targ :: "('p, 'fs, 'r, 's, 'a, 'd) Policy option"
  q_targ :: "('p, 'fs, 'r, 's, 'a) Q"
  value_transform :: "(real \<Rightarrow> real) \<times> (real \<Rightarrow> real)"

text \<open>
  Modelled from the spec: the base class \<^verbatim>\<open>BaseTDLearningQWithTargetPolicy\<close> is not among
  the sources. Its constructor stores the arguments; following the docstring of
  \<^verbatim>\<open>QLearning\<close>, an unspecified \<^verbatim>\<open>q_targ\<close> is \<^verbatim>\<open>q\<close> itself and an unspecified value
  transform leaves the returns untransformed. The optimizer and the loss function are
  handed over unchanged and read neither by the checks nor by \<^verbatim>\<open>target_func\<close>; they are
  left out.
\<close>

definition base_init ::
  "('p, 'fs, 'r, 's, 'a) Q \<Rightarrow> ('p, 'fs, 'r, 's, 'a, 'd) Policy option \<Rightarrow>
   ('p, 'fs, 'r, 's, 'a) Q option \<Rightarrow> ((real \<Rightarrow> real) \<times> (real \<Rightarrow> real)) option \<Rightarrow>
   ('p, 'fs, 'r, 's, 'a, 'd) QLearning" where
  "base_init q0 pi_targ0 q_targ0 value_transform0 =
     \<lparr>q = q0,
      pi_targ = pi_targ0,
      q_targ = (case q_targ0 of None \<Rightarrow> q0 | Some qt \<Rightarrow> qt),
      value_transform = (case value_transform0 of None \<Rightarrow> (\<lambda>x. x, \<lambda>x. x) | Some vt \<Rightarrow> vt)\<rparr>"

text \<open>
  \<^verbatim>\<open>QLearning.__init__\<close>: the base constructor, then the two consistency checks. The
  result is the error raised, or the constructed object with the warnings emitted on the
  way.
\<close>

definition QLearning_init ::
  "('p, 'fs, 'r, 's, 'a) Q \<Rightarrow> ('p, 'fs, 'r, 's, 'a, 'd) Policy option \<Rightarrow>
   ('p, 'fs, 'r, 's, 'a) Q option \<Rightarrow> ((real \<Rightarrow> real) \<times> (real \<Rightarrow> real)) option \<Rightarrow>
   error + (('p, 'fs, 'r, 's, 'a, 'd) QLearning \<times> string list)" where
  "QLearning_init q0 pi_targ0 q_targ0 value_transform0 =
     (let self = base_init q0 pi_targ0 q_targ0 value_transform0 in
      if pi_targ self = None \<and> \<not> isinstance_Discrete (action_space (q self))
      then Inl (TypeError ''pi_targ must be provided if action space is not discrete'')
      else if pi_targ self \<noteq> None \<and> isinstance_Discrete (action_space (q self))
      then Inr (self, [''pi_targ is ignored, because action space is discrete''])
      else Inr (self, []))"

text \<open>
  \<^verbatim>\<open>hk.PRNGSequence(rng)\<close> hands out a fresh key at every \<^verbatim>\<open>next\<close>: it splits the key it
  holds, keeps the first half and returns the second. The splitting function of the
  random-number library is a parameter.
\<close>

definition next_key :: "('r \<Rightarrow> 'r \<times> 'r) \<Rightarrow> 'r \<Rightarrow> 'r \<times> 'r" where
  "next_key split rngs = (let (key, subkey) = split rngs in (subkey, key))"

text \<open>Sequencing of computations that may raise.\<close>

definition bind_error :: "error + 'x \<Rightarrow> ('x \<Rightarrow> error + 'y) \<Rightarrow> error + 'y" where
  "bind_error m k = (case m of Inl e \<Rightarrow> Inl e | Inr x \<Rightarrow> k x)"

text \<open>
  The bootstrap value \<^verbatim>\<open>Q_sa\<close> of \<^verbatim>\<open>target_func\<close>, branch by branch. For a discrete action
  space the target q-function is evaluated in type-2 mode with the key \<^verbatim>\<open>rng\<close> itself and
  the table is reduced along the action axis. Otherwise the target policy is evaluated with
  the first key of the sequence, its mode is taken, and the target q-function is evaluated
  in type-1 mode with the second key; a missing target policy raises on the attribute
  access.
\<close>

definition greedy_value_discrete ::
  "('p, 'fs, 'r, 's, 'a, 'd) QLearning \<Rightarrow> (string \<rightharpoonup> 'p) \<Rightarrow> (string \<rightharpoonup> 'fs) \<Rightarrow> 'r \<Rightarrow> 's \<Rightarrow>
   error + ndarray" where
  "greedy_value_discrete self target_params target_state rng S_next0 =
     bind_error (getitem target_params ''q_targ'') (\<lambda>params0.
     bind_error (getitem target_state ''q_targ'') (\<lambda>state0.
       let (Q_s, _) = function_type2 (q_targ self) params0 state0 rng S_next0 False in
       if ndim Q_s \<noteq> 2 then Inl (AssertionError ''bad shape'')
       else max_axis1 Q_s))"

definition greedy_value_continuous ::
  "('r \<Rightarrow> 'r \<times> 'r) \<Rightarrow> ('p, 'fs, 'r, 's, 'a, 'd) QLearning \<Rightarrow> (string \<rightharpoonup> 'p) \<Rightarrow>
   (string \<rightharpoonup> 'fs) \<Rightarrow> 'r \<Rightarrow> 's \<Rightarrow> error + ndarray" where
  "greedy_value_continuous split self target_params target_state rng S_next0 =
     bind_error (getitem target_params ''pi_targ'') (\<lambda>params0.
     bind_error (getitem target_state ''pi_targ'') (\<lambda>state0.
       case pi_targ self of
         None \<Rightarrow> Inl (AttributeError ''function'')
       | Some policy \<Rightarrow>
           let (key1, rngs1) = next_key split rng;
               (dist_params, _) = pi_function policy params0 state0 key1 S_next0 False;
               A_next = proba_dist_mode policy dist_params
           in
           bind_error (getitem target_params ''q_targ'') (\<lambda>params1.
           bind_error (getitem target_state ''q_targ'') (\<lambda>state1.
             let (key2, rngs2) = next_key split rngs1;
                 (Q_sa, _) = function_type1 (q_targ self) params1 state1 key2 S_next0 A_next False
             in Inr Q_sa))))"

text \<open>
  \<^verbatim>\<open>QLearning.target_func\<close>. After the branch the bootstrap value must be one-dimensional;
  then \<^verbatim>\<open>f(Rn + In * f_inv(Q_sa))\<close> is computed on arrays. The message of both assertions is
  \<^verbatim>\<open>bad shape:\<close> followed by the offending shape; the model keeps the fixed part.
\<close>

definition target_func ::
  "('r \<Rightarrow> 'r \<times> 'r) \<Rightarrow> ('p, 'fs, 'r, 's, 'a, 'd) QLearning \<Rightarrow> (string \<rightharpoonup> 'p) \<Rightarrow>
   (string \<rightharpoonup> 'fs) \<Rightarrow> 'r \<Rightarrow> ('s, 'a, 'z) TransitionBatch_scheme \<Rightarrow> error + real list" where
  "target_func split self target_params target_state rng transition_batch =
     (let Rn0 = Rn transition_batch;
          In0 = In transition_batch;
          S_next0 = S_next transition_batch
      in
      bind_error
        (if isinstance_Discrete (action_space (q self))
         then greedy_value_discrete self target_params target_state rng S_next0
         else greedy_value_continuous split self target_params target_state rng S_next0)
        (\<lambda>Q_sa.
           if ndim Q_sa \<noteq> 1 then Inl (AssertionError ''bad shape'')
           else
             let (f, f_inv) = value_transform self in
             bind_error (broadcast (*) In0 (map f_inv (data Q_sa))) (\<lambda>t.
             bind_error (broadcast (+) Rn0 t) (\<lambda>u.
               Inr (map f u)))))"

text \<open>An array whose entries fill its shape.\<close>

definition well_shaped :: "ndarray \<Rightarrow> bool" where
  "well_shaped x = (length (data x) = prod_list (shape x))"

section \<open>Target network synchronisation\<close>

text \<open>
  Modelled from the spec: the method \<^verbatim>\<open>soft_update\<close> of the q-function class is not among
  the sources. The parameters and the function state are the lists of their leaves; the
  target's leaves are blended towards the source's, entry by entry, as
  \<open>(1 - tau) * target + tau * source\<close>, the function state in the same way as the
  parameters.
\<close>

definition blend :: "real \<Rightarrow> real list \<Rightarrow> real list \<Rightarrow> real list" where
  "blend tau targ src = map2 (\<lambda>p p_other. (1 - tau) * p + tau * p_other) targ src"

definition soft_update ::
  "(real list, real list, 'r, 's, 'a) Q \<Rightarrow> (real list, real list, 'r, 's, 'a) Q \<Rightarrow> real \<Rightarrow>
   (real list, real list, 'r, 's, 'a) Q" where
  "soft_update self other tau =
     self\<lparr>params := blend tau (params self) (params other),
          function_state := blend tau (function_state self) (function_state other)\<rparr>"

text \<open>
  Modelled from the spec: the call \<^verbatim>\<open>target.soft_update(source, tau)\<close> as the mutation it
  is. Objects live in a store, the call assigns to the attributes of the object at \<open>targ\<close> and only reads the one
  at \<open>src\<close>. The two references may be the same object.
\<close>

definition soft_update_at ::
  "(nat \<Rightarrow> (real list, real list, 'r, 's, 'a) Q) \<Rightarrow> nat \<Rightarrow> nat \<Rightarrow> real \<Rightarrow>
   (nat \<Rightarrow> (real list, real list, 'r, 's, 'a) Q)" where
  "soft_update_at store targ src tau = store(targ := soft_update (store targ) (store src) tau)"

section \<open>The n-step reward tracer\<close>

text \<open>
  Modelled from the spec: the class \<^verbatim>\<open>coax.reward_tracing.NStep\<close> is not among the sources.
  A transition is what \<^verbatim>\<open>add(s, a, r, done, logp)\<close> receives.
\<close>

datatype ('o, 'c) transition =
  Transition (t_s: 'o) (t_a: 'c) (t_r: real) (t_done: bool) (t_logp: real)

text \<open>Modelled from the spec: an emitted batch, for one sample.\<close>

record ('o, 'c) traced =
  traced_S :: 'o
  traced_A :: 'c
  traced_logp :: real
  traced_Rn :: real
  traced_In :: real
  traced_S_next :: 'o

text \<open>
  Modelled from the spec: the discounted sum \<open>r\<^sub>0 + \<gamma> r\<^sub>1 + \<gamma>\<^sup>2 r\<^sub>2 + \<dots>\<close> of the rewards of
  a window.
\<close>

fun discounted :: "real \<Rightarrow> real list \<Rightarrow> real" where
  "discounted g [] = 0"
| "discounted g (x # xs) = x + g * discounted g xs"

text \<open>
  Modelled from the spec: the batch that starts at the head of the pending window, which is
  never empty where this is used. If the window holds more than \<open>n\<close> transitions, the batch
  covers the first \<open>n\<close> of them and bootstraps from the state of the one after. Otherwise
  the window ended early, the batch covers all of it and its indicator is \<open>0\<close>. The spec
  names the terminal state as the bootstrap state of such a batch, but
  \<^verbatim>\<open>add(s, a, r, done, logp)\<close> is called with the state before the step and never receives
  the state after the terminal transition. What the tracer stores there is therefore some
  state computed from the window it holds; which one the spec does not determine, so the
  rule \<open>fill\<close> is a parameter.
\<close>

definition emit ::
  "(('o, 'c) transition list \<Rightarrow> 'o) \<Rightarrow> nat \<Rightarrow> real \<Rightarrow> ('o, 'c) transition list \<Rightarrow>
   ('o, 'c) traced" where
  "emit fill n g w =
     (if n < length w
      then \<lparr>traced_S = t_s (hd w), traced_A = t_a (hd w), traced_logp = t_logp (hd w),
            traced_Rn = discounted g (map t_r (take n w)),
            traced_In = g ^ n,
            traced_S_next = t_s (w ! n)\<rparr>
      else \<lparr>traced_S = t_s (hd w), traced_A = t_a (hd w), traced_logp = t_logp (hd w),
            traced_Rn = discounted g (map t_r w),
            traced_In = 0,
            traced_S_next = fill w\<rparr>)"

text \<open>
  Modelled from the spec: after a terminal transition the window shrinks from the front and
  emits one batch per remaining start.
\<close>

fun flush_window ::
  "(('o, 'c) transition list \<Rightarrow> 'o) \<Rightarrow> nat \<Rightarrow> real \<Rightarrow> ('o, 'c) transition list \<Rightarrow>
   ('o, 'c) traced list" where
  "flush_window fill n g [] = []"
| "flush_window fill n g (t # w) = emit fill n g (t # w) # flush_window fill n g w"

record ('o, 'c) NStep =
  nstep_n :: nat
  nstep_gamma :: real
  window :: "('o, 'c) transition list"
  ready :: "('o, 'c) traced list"

definition NStep_init :: "nat \<Rightarrow> real \<Rightarrow> ('o, 'c) NStep" where
  "NStep_init n0 gamma0 = \<lparr>nstep_n = n0, nstep_gamma = gamma0, window = [], ready = []\<rparr>"

text \<open>
  Modelled from the spec: \<^verbatim>\<open>add\<close> appends to the window. A terminal transition flushes
  every pending start. Otherwise a batch is completed as soon as the state \<open>n\<close> steps after
  its start has been observed, which is when the window holds \<open>n + 1\<close> transitions: the
  state following the \<open>n\<close>-th transition reaches the tracer only with the next \<^verbatim>\<open>add\<close>.
\<close>

definition add ::
  "(('o, 'c) transition list \<Rightarrow> 'o) \<Rightarrow> ('o, 'c) NStep \<Rightarrow> ('o, 'c) transition \<Rightarrow>
   ('o, 'c) NStep" where
  "add fill tracer t =
     (let w = window tracer @ [t] in
      if t_done t
      then tracer\<lparr>window := [], ready := ready tracer @ flush_window fill (nstep_n tracer) (nstep_gamma tracer) w\<rparr>
      else if nstep_n tracer < length w
      then tracer\<lparr>window := tl w, ready := ready tracer @ [emit fill (nstep_n tracer) (nstep_gamma tracer) w]\<rparr>
      else tracer\<lparr>window := w\<rparr>)"

text \<open>Modelled from the spec: \<^verbatim>\<open>flush\<close> drains the completed batches.\<close>

definition flush :: "('o, 'c) NStep \<Rightarrow> ('o, 'c) traced list \<times> ('o, 'c) NStep" where
  "flush tracer = (ready tracer, tracer\<lparr>ready := []\<rparr>)"





section \<open>The Ape-X worker of the Atari example\<close>

text \<open>
  \<^verbatim>\<open>ApexWorker\<close> holds its updater, whose \<^verbatim>\<open>q\<close> and \<^verbatim>\<open>q_targ\<close> are the worker's properties of
  the same names, and its tracer; \<open>rest\<close> is the state of the base class \<^verbatim>\<open>coax.Worker\<close>
  (environment, buffer, parameter store), which is not among the sources.
\<close>

record ('tr, 'w, 'r, 's, 'a, 'd) ApexWorker =
  q_updater :: "(real list, real list, 'r, 's, 'a, 'd) QLearning"
  tracer :: 'tr
  rest :: 'w

text \<open>
  \<^verbatim>\<open>ApexWorker.trace\<close>. The collaborators that are not among the sources are parameters:
  the tracer's \<^verbatim>\<open>add\<close> and \<^verbatim>\<open>flush\<close>, the updater's \<^verbatim>\<open>td_error\<close>, and the base class's
  \<^verbatim>\<open>buffer_add\<close> and \<^verbatim>\<open>push_setattr('buffer.beta', ...)\<close>, the last two acting on \<open>rest\<close>.
\<close>

definition trace ::
  "('tr \<Rightarrow> 'o \<Rightarrow> 'c \<Rightarrow> real \<Rightarrow> bool \<Rightarrow> real \<Rightarrow> 'tr) \<Rightarrow> ('tr \<Rightarrow> 'bt \<times> 'tr) \<Rightarrow>
   ((real list, real list, 'r, 's, 'a, 'd) QLearning \<Rightarrow> 'bt \<Rightarrow> 'td) \<Rightarrow>
   ('w \<Rightarrow> 'bt \<Rightarrow> 'td \<Rightarrow> 'w) \<Rightarrow> ('w \<Rightarrow> 'w) \<Rightarrow>
   ('tr, 'w, 'r, 's, 'a, 'd) ApexWorker \<Rightarrow> 'o \<Rightarrow> 'c \<Rightarrow> real \<Rightarrow> bool \<Rightarrow> real \<Rightarrow>
   ('tr, 'w, 'r, 's, 'a, 'd) ApexWorker" where
  "trace tracer_add tracer_flush td_error buffer_add push_beta self s0 a0 r0 done0 logp0 =
     (let self1 = self\<lparr>tracer := tracer_add (tracer self) s0 a0 r0 done0 logp0\<rparr>;
          u = q_updater self1;
          self2 = self1\<lparr>q_updater := u\<lparr>q_targ := soft_update (q_targ u) (q u) (1 / 1000)\<rparr>\<rparr>
      in
      if done0 then
        let (transition_batch, tracer1) = tracer_flush (tracer self2);
            self3 = self2\<lparr>tracer := tracer1\<rparr>;
            td = td_error (q_updater self3) transition_batch;
            self4 = self3\<lparr>rest := buffer_add (rest self3) transition_batch td\<rparr>
        in self4\<lparr>rest := push_beta (rest self4)\<rparr>
      else self2)"

text \<open>A run of \<^verbatim>\<open>trace\<close> calls, one per transition, oldest first.\<close>

fun trace_all ::
  "('tr \<Rightarrow> 'o \<Rightarrow> 'c \<Rightarrow> real \<Rightarrow> bool \<Rightarrow> real \<Rightarrow> 'tr) \<Rightarrow> ('tr \<Rightarrow> 'bt \<times> 'tr) \<Rightarrow>
   ((real list, real list, 'r, 's, 'a, 'd) QLearning \<Rightarrow> 'bt \<Rightarrow> 'td) \<Rightarrow>
   ('w \<Rightarrow> 'bt \<Rightarrow> 'td \<Rightarrow> 'w) \<Rightarrow> ('w \<Rightarrow> 'w) \<Rightarrow>
   ('tr, 'w, 'r, 's, 'a, 'd) ApexWorker \<Rightarrow> ('o, 'c) transition list \<Rightarrow>
   ('tr, 'w, 'r, 's, 'a, 'd) ApexWorker" where
  "trace_all tracer_add tracer_flush td_error buffer_add push_beta self [] = self"
| "trace_all tracer_add tracer_flush td_error buffer_add push_beta self (t # ts) =
     trace_all tracer_add tracer_flush td_error buffer_add push_beta
       (trace tracer_add tracer_flush td_error buffer_add push_beta self
          (t_s t) (t_a t) (t_r t) (t_done t) (t_logp t)) ts"

section \<open>The meta-policy wrapper\<close>

text \<open>
  An arm is a callable. The wrapper looks at one thing only: whether the arm's argument
  list has \<^verbatim>\<open>return_logp\<close>. If so it is called with \<^verbatim>\<open>return_logp=True\<close> and returns an
  action with its log-propensity; if not it returns an action.
\<close>

datatype ('o, 'c) arm = ArmWithLogp "'o \<Rightarrow> 'c \<times> real" | ArmPlain "'o \<Rightarrow> 'c"

datatype ('c, 'x) info_value = InfoAction 'c | InfoFloat real | InfoOther 'x

record ('e, 'o, 'c) MetaPolicyEnv =
  env :: 'e
  arms :: "('o, 'c) arm list"
  meta_action_space :: space
  self_s :: "'o option"

text \<open>\<^verbatim>\<open>Discrete(n).contains(x)\<close> for an integer \<open>x\<close>. The wrapper builds no other space.\<close>

fun contains :: "space \<Rightarrow> int \<Rightarrow> bool" where
  "contains (Discrete k) x = (0 \<le> x \<and> x < int k)"
| "contains NonDiscrete x = False"

text \<open>Subscripting a tuple: negative indices count from the end, others raise.\<close>

definition tuple_getitem :: "'x list \<Rightarrow> int \<Rightarrow> error + 'x" where
  "tuple_getitem xs i =
     (if 0 \<le> i \<and> i < int (length xs) then Inr (xs ! nat i)
      else if i < 0 \<and> - int (length xs) \<le> i then Inr (xs ! nat (int (length xs) + i))
      else Inl (IndexError ''tuple index out of range''))"

definition MetaPolicyEnv_init :: "'e \<Rightarrow> ('o, 'c) arm list \<Rightarrow> ('e, 'o, 'c) MetaPolicyEnv" where
  "MetaPolicyEnv_init env0 arms0 =
     \<lparr>env = env0, arms = arms0, meta_action_space = Discrete (length arms0), self_s = None\<rparr>"

text \<open>
  The wrapped environment is a state of type \<open>'e\<close> with its two operations as parameters:
  \<open>env_reset\<close> returns the first observation, \<open>env_step\<close> the tuple
  \<^verbatim>\<open>(s, r, done, info)\<close>, each with the environment's new state. \<^verbatim>\<open>info\<close> may be
  \<^verbatim>\<open>None\<close>.
\<close>

definition reset ::
  "('e \<Rightarrow> 'o \<times> 'e) \<Rightarrow> ('e, 'o, 'c) MetaPolicyEnv \<Rightarrow> 'o \<times> ('e, 'o, 'c) MetaPolicyEnv" where
  "reset env_reset self =
     (let (s0, env1) = env_reset (env self) in (s0, self\<lparr>env := env1, self_s := Some s0\<rparr>))"

definition step ::
  "('e \<Rightarrow> 'c \<Rightarrow> ('o \<times> real \<times> bool \<times> (string \<rightharpoonup> ('c, 'x) info_value) option) \<times> 'e) \<Rightarrow>
   ('e, 'o, 'c) MetaPolicyEnv \<Rightarrow> int \<Rightarrow>
   error + (('o \<times> real \<times> bool \<times> (string \<rightharpoonup> ('c, 'x) info_value)) \<times> ('e, 'o, 'c) MetaPolicyEnv)" where
  "step env_step self a_meta =
     (if \<not> contains (meta_action_space self) a_meta
      then Inl (AssertionError ''a_meta is invalid'')
      else
        case self_s self of
          None \<Rightarrow> Inl (AssertionError ''please call env.reset() first'')
        | Some s0 \<Rightarrow>
            bind_error (tuple_getitem (arms self) a_meta) (\<lambda>policy.
              let (a0, logp0) =
                    (case policy of ArmWithLogp g \<Rightarrow> g s0 | ArmPlain g \<Rightarrow> (g s0, 0));
                  ((s1, r0, done0, info0), env1) = env_step (env self) a0;
                  info1 = (case info0 of None \<Rightarrow> Map.empty | Some d \<Rightarrow> d);
                  info2 = info1(''a'' \<mapsto> InfoAction a0, ''logp'' \<mapsto> InfoFloat logp0)
              in Inr ((s1, r0, done0, info2), self\<lparr>env := env1, self_s := Some s1\<rparr>)))"

text \<open>
  A history of calls on a wrapper, oldest first; a failing \<^verbatim>\<open>step\<close> ends it with its
  error.
\<close>

datatype call = Reset | Step int

fun run ::
  "('e \<Rightarrow> 'o \<times> 'e) \<Rightarrow>
   ('e \<Rightarrow> 'c \<Rightarrow> ('o \<times> real \<times> bool \<times> (string \<rightharpoonup> ('c, 'x) info_value) option) \<times> 'e) \<Rightarrow>
   ('e, 'o, 'c) MetaPolicyEnv \<Rightarrow> call list \<Rightarrow> error + ('e, 'o, 'c) MetaPolicyEnv" where
  "run env_reset env_step self [] = Inr self"
| "run env_reset env_step self (Reset # cs) =
     run env_reset env_step (snd (reset env_reset self)) cs"
| "run env_reset env_step self (Step a_meta # cs) =
     bind_error (step env_step self a_meta) (\<lambda>(out, self1). run env_reset env_step self1 cs)"

text \<open>What the constructor establishes and no method changes.\<close>

definition wrapper_ok :: "('e, 'o, 'c) MetaPolicyEnv \<Rightarrow> ('o, 'c) arm list \<Rightarrow> bool" where
  "wrapper_ok self arms0 = (arms self = arms0 \<and> meta_action_space self = Discrete (length arms0))"

section \<open>Example objects\<close>

text \<open>
  A small q-function whose type-2 table for a single sample is \<open>[[1, 5, 2]]\<close> and whose
  type-1 value is twice the action, a policy whose mode is \<open>4\<close>, and transition batches of
  one sample; further down a q-function whose type-2 table for two samples is
  \<open>[[1, 5, 2], [-3, -1, -2]]\<close>, with a batch of two samples.
\<close>

definition example_Q :: "space \<Rightarrow> (real list, real list, nat, nat, real) Q" where
  "example_Q sp =
     \<lparr>params = [1, 2], function_state = [0], action_space = sp,
      function_type1 = (\<lambda>p st key s0 a0 is_training. (\<lparr>shape = [1], data = [2 * a0]\<rparr>, st)),
      function_type2 = (\<lambda>p st key s0 is_training. (\<lparr>shape = [1, 3], data = [1, 5, 2]\<rparr>, st))\<rparr>"

definition example_Policy :: "(real list, real list, nat, nat, real, real) Policy" where
  "example_Policy =
     \<lparr>pi_function = (\<lambda>p st key s0 is_training. (3, st)), proba_dist_mode = (\<lambda>d. d + 1)\<rparr>"

definition example_QLearning ::
  "space \<Rightarrow> (real list, real list, nat, nat, real, real) Policy option \<Rightarrow>
   (real list, real list, nat, nat, real, real) QLearning" where
  "example_QLearning sp p = base_init (example_Q sp) p None None"

definition example_params :: "string \<rightharpoonup> real list" where
  "example_params = [''q_targ'' \<mapsto> [1, 2], ''pi_targ'' \<mapsto> [3]]"

definition example_state :: "string \<rightharpoonup> real list" where
  "example_state = [''q_targ'' \<mapsto> [0], ''pi_targ'' \<mapsto> []]"

definition example_split :: "nat \<Rightarrow> nat \<times> nat" where
  "example_split key = (2 * key + 1, 2 * key + 2)"

definition example_batch :: "(nat, real) TransitionBatch" where
  "example_batch =
     \<lparr>S = 0, A = 0, logp = [0], Rn = [1], In = [99 / 100], S_next = 1, W = [1], idx = [0]\<rparr>"

definition example_batch' :: "(nat, real) TransitionBatch" where
  "example_batch' =
     \<lparr>S = 7, A = 2, logp = [- 1], Rn = [1], In = [99 / 100], S_next = 1, W = [1 / 2], idx = [4]\<rparr>"

definition example_Q2 :: "(real list, real list, nat, nat, real) Q" where
  "example_Q2 =
     \<lparr>params = [1, 2], function_state = [0], action_space = Discrete 3,
      function_type1 = (\<lambda>p st key s0 a0 is_training. (\<lparr>shape = [2], data = [a0, a0]\<rparr>, st)),
      function_type2 = (\<lambda>p st key s0 is_training.
        (\<lparr>shape = [2, 3], data = [1, 5, 2, - 3, - 1, - 2]\<rparr>, st))\<rparr>"

definition example_QLearning2 ::
  "(real list, real list, nat, nat, real, real) QLearning" where
  "example_QLearning2 = base_init example_Q2 None None None"

definition example_batch2 :: "(nat, real) TransitionBatch" where
  "example_batch2 =
     \<lparr>S = 0, A = 0, logp = [0, 0], Rn = [1, 2], In = [1 / 2, 1 / 2], S_next = 1,
      W = [1, 1], idx = [0, 1]\<rparr>"

definition example_bad_Q :: "space \<Rightarrow> (real list, real list, nat, nat, real) Q" where
  "example_bad_Q sp =
     \<lparr>params = [1, 2], function_state = [0], action_space = sp,
      function_type1 = (\<lambda>p st key s0 a0 is_training. (\<lparr>shape = [1, 1], data = [2 * a0]\<rparr>, st)),
      function_type2 = (\<lambda>p st key s0 is_training. (\<lparr>shape = [3], data = [1, 5, 2]\<rparr>, st))\<rparr>"

definition example_bad_QLearning ::
  "space \<Rightarrow> (real list, real list, nat, nat, real, real) Policy option \<Rightarrow>
   (real list, real list, nat, nat, real, real) QLearning" where
  "example_bad_QLearning sp p = base_init (example_bad_Q sp) p None None"

definition example_source :: "(real list, real list, nat, nat, real) Q" where
  "example_source = (example_Q (Discrete 3))\<lparr>params := [3, 5], function_state := [1]\<rparr>"

definition example_fill :: "(nat, nat) transition list \<Rightarrow> nat" where
  "example_fill w = t_s (last w)"

definition example_worker ::
  "((nat, nat) NStep, nat, nat, nat, real, real) ApexWorker" where
  "example_worker =
     \<lparr>q_updater = base_init example_source None (Some (example_Q (Discrete 3))) None,
      tracer = NStep_init 1 (99 / 100),
      rest = 0\<rparr>"

definition example_trace ::
  "((nat, nat) NStep, nat, nat, nat, real, real) ApexWorker \<Rightarrow> nat \<Rightarrow> nat \<Rightarrow> real \<Rightarrow> bool \<Rightarrow>
   real \<Rightarrow> ((nat, nat) NStep, nat, nat, nat, real, real) ApexWorker" where
  "example_trace =
     trace (\<lambda>tr s0 a0 r0 done0 logp0. add example_fill tr (Transition s0 a0 r0 done0 logp0))
       flush
       (\<lambda>u batch. length batch) (\<lambda>w batch td. w + td) (\<lambda>w. w)"

definition example_arms :: "(nat, nat) arm list" where
  "example_arms = [ArmPlain (\<lambda>s0. s0 + 10), ArmWithLogp (\<lambda>s0. (s0 + 20, - 1 / 2))]"

definition example_env_reset :: "nat \<Rightarrow> nat \<times> nat" where
  "example_env_reset e = (0, e)"

definition example_env_step ::
  "nat \<Rightarrow> nat \<Rightarrow> (nat \<times> real \<times> bool \<times> (string \<rightharpoonup> (nat, unit) info_value) option) \<times> nat" where
  "example_env_step e a0 = ((e + 1, 1, False, None), e + 1)"

section \<open>Arrays\<close>

lemma row_max_Max:
  assumes "xs \<noteq> []"
  shows "row_max xs = Max (set xs)"
proof (cases xs)
  case Nil
  with assms show ?thesis by simp
next
  case (Cons y ys)
  have "Max (set (y # ys)) = fold max ys y" by (rule Max.set_eq_fold)
  with Cons show ?thesis by simp
qed

lemma row_length:
  assumes "i < b" and "length xs = b * k"
  shows "length (row k xs i) = k"
proof -
  from assms(1) have "Suc i \<le> b" by simp
  then have "Suc i * k \<le> b * k" by (rule mult_le_mono1)
  then have "k \<le> b * k - i * k" by simp
  with assms(2) show ?thesis by (simp add: row_def)
qed

lemma row_nth:
  assumes "i < b" and "length xs = b * k" and "j < k"
  shows "row k xs i ! j = xs ! (i * k + j)"
proof -
  from assms(1) have "Suc i \<le> b" by simp
  then have "Suc i * k \<le> b * k" by (rule mult_le_mono1)
  with assms(2) have "i * k + k \<le> length xs" by simp
  with assms(3) show ?thesis by (simp add: row_def)
qed

lemma row_set:
  assumes "i < b" and "length xs = b * k"
  shows "set (row k xs i) = (\<lambda>j. xs ! (i * k + j)) ` {..<k}"
proof -
  have len: "length (row k xs i) = k"
    using assms by (rule row_length)
  have "set (row k xs i) = (\<lambda>j. row k xs i ! j) ` {..<length (row k xs i)}"
    by (auto simp: set_conv_nth)
  also have "\<dots> = (\<lambda>j. row k xs i ! j) ` {..<k}"
    by (simp only: len)
  also have "\<dots> = (\<lambda>j. xs ! (i * k + j)) ` {..<k}"
    by (rule image_cong) (simp_all add: row_nth [OF assms])
  finally show ?thesis .
qed

lemma max_axis1_table:
  assumes "shape x = [b, k]" and "0 < k"
  shows "max_axis1 x = Inr \<lparr>shape = [b], data = map (\<lambda>i. row_max (row k (data x) i)) [0..<b]\<rparr>"
  using assms by (simp add: max_axis1_def)

lemma max_axis1_ndim:
  assumes "max_axis1 x = Inr y"
  shows "ndim y = 1"
  using assms
  by (auto simp: max_axis1_def ndim_def split: list.splits if_splits)

section \<open>The construction-time checks\<close>

text \<open>
  C3. Constructing the updater for a non-discrete action space without a target policy
  raises the \<^verbatim>\<open>TypeError\<close>; for a discrete action space with a target policy it succeeds and
  emits the one warning that the policy is ignored; the two remaining combinations succeed
  with no warning.
\<close>

theorem QLearning_init_checks:
  "(action_space q0 = NonDiscrete \<longrightarrow>
      QLearning_init q0 None qt vt =
        Inl (TypeError ''pi_targ must be provided if action space is not discrete'')) \<and>
   (\<forall>k p. action_space q0 = Discrete k \<longrightarrow>
      QLearning_init q0 (Some p) qt vt =
        Inr (base_init q0 (Some p) qt vt, [''pi_targ is ignored, because action space is discrete''])) \<and>
   (\<forall>k. action_space q0 = Discrete k \<longrightarrow>
      QLearning_init q0 None qt vt = Inr (base_init q0 None qt vt, [])) \<and>
   (\<forall>p. action_space q0 = NonDiscrete \<longrightarrow>
      QLearning_init q0 (Some p) qt vt = Inr (base_init q0 (Some p) qt vt, []))"
  by (simp add: QLearning_init_def base_init_def Let_def)

theorem QLearning_init_checks_witness:
  "QLearning_init (example_Q NonDiscrete)
       (None :: (real list, real list, nat, nat, real, real) Policy option) None None =
     Inl (TypeError ''pi_targ must be provided if action space is not discrete'') \<and>
   QLearning_init (example_Q (Discrete 3)) (Some example_Policy) None None =
     Inr (example_QLearning (Discrete 3) (Some example_Policy),
          [''pi_targ is ignored, because action space is discrete'']) \<and>
   QLearning_init (example_Q (Discrete 3)) None None None =
     Inr (example_QLearning (Discrete 3) None, []) \<and>
   QLearning_init (example_Q NonDiscrete) (Some example_Policy) None None =
     Inr (example_QLearning NonDiscrete (Some example_Policy), [])"
proof -
  have sp: "action_space (example_Q sp) = sp" for sp
    by (simp add: example_Q_def)
  note checks = QLearning_init_checks [where ?q0.0 = "example_Q sp" for sp]
  have "QLearning_init (example_Q NonDiscrete)
          (None :: (real list, real list, nat, nat, real, real) Policy option) None None =
        Inl (TypeError ''pi_targ must be provided if action space is not discrete'')"
    by (rule checks [THEN conjunct1, rule_format]) (rule sp)
  moreover
  have "QLearning_init (example_Q (Discrete 3)) (Some example_Policy) None None =
        Inr (example_QLearning (Discrete 3) (Some example_Policy),
             [''pi_targ is ignored, because action space is discrete''])"
    unfolding example_QLearning_def
    by (rule checks [THEN conjunct2, THEN conjunct1, rule_format]) (rule sp)
  moreover
  have "QLearning_init (example_Q (Discrete 3)) None None None =
        Inr (example_QLearning (Discrete 3) None, [])"
    unfolding example_QLearning_def
    by (rule checks [THEN conjunct2, THEN conjunct2, THEN conjunct1, rule_format]) (rule sp)
  moreover
  have "QLearning_init (example_Q NonDiscrete) (Some example_Policy) None None =
        Inr (example_QLearning NonDiscrete (Some example_Policy), [])"
    unfolding example_QLearning_def
    by (rule checks [THEN conjunct2, THEN conjunct2, THEN conjunct2, rule_format]) (rule sp)
  ultimately show ?thesis by simp
qed

section \<open>The bootstrapped target\<close>

lemma greedy_value_discrete_table:
  assumes "target_params ''q_targ'' = Some params0"
    and "target_state ''q_targ'' = Some state0"
    and "function_type2 (q_targ self) params0 state0 rng s_next False = (Q_s, state1)"
    and "shape Q_s = [b, k]" and "0 < k"
  shows "greedy_value_discrete self target_params target_state rng s_next =
           Inr \<lparr>shape = [b], data = map (\<lambda>i. row_max (row k (data Q_s) i)) [0..<b]\<rparr>"
  using assms
  by (simp add: greedy_value_discrete_def getitem_def bind_error_def ndim_def max_axis1_table)

lemma greedy_value_discrete_frame:
  "greedy_value_discrete (self\<lparr>pi_targ := p\<rparr>) (target_params(''pi_targ'' := pp))
       (target_state(''pi_targ'' := ps)) rng s_next =
   greedy_value_discrete self target_params target_state rng s_next"
  by (simp add: greedy_value_discrete_def getitem_def)

text \<open>
  C1. For a discrete action space with \<open>k\<close> actions, a batch of \<open>b\<close> samples and a target
  q-function whose type-2 evaluation on \<open>S_next\<close> is a \<open>[b, k]\<close> table, \<^verbatim>\<open>target_func\<close>
  returns the one-dimensional array whose entry \<open>i\<close> is \<open>f (Rn\<^sub>i + In\<^sub>i * f_inv m\<^sub>i)\<close>, where
  \<open>m\<^sub>i\<close> is the greatest of the \<open>k\<close> entries \<open>(i, 0), \<dots>, (i, k - 1)\<close> of the table, which lie
  at the positions \<open>i * k + j\<close> of its row-major data. Neither the target policy nor its
  entries in the parameter and state dicts nor the key sequence is consulted: replacing
  them changes nothing.
\<close>

theorem target_func_discrete:
  assumes "action_space (q self) = Discrete k"
    and "target_params ''q_targ'' = Some params0"
    and "target_state ''q_targ'' = Some state0"
    and "function_type2 (q_targ self) params0 state0 rng (S_next batch) False = (Q_s, state1)"
    and "shape Q_s = [b, k]" and "well_shaped Q_s" and "0 < k"
    and "length (Rn batch) = b" and "length (In batch) = b"
    and "value_transform self = (f, f_inv)"
  shows "(\<exists>G. target_func split self target_params target_state rng batch = Inr G \<and>
            length G = b \<and>
            (\<forall>i<b. G ! i =
               f (Rn batch ! i + In batch ! i *
                    f_inv (Max ((\<lambda>j. data Q_s ! (i * k + j)) ` {..<k}))))) \<and>
         target_func split' (self\<lparr>pi_targ := p\<rparr>) (target_params(''pi_targ'' := pp))
             (target_state(''pi_targ'' := ps)) rng batch =
           target_func split self target_params target_state rng batch"
proof
  let ?Q = "map (\<lambda>i. row_max (row k (data Q_s) i)) [0..<b]"
  let ?G = "map f (map2 (+) (Rn batch) (map2 (*) (In batch) (map f_inv ?Q)))"
  have val: "greedy_value_discrete self target_params target_state rng (S_next batch) =
               Inr \<lparr>shape = [b], data = ?Q\<rparr>"
    using assms(2-5,7) by (rule greedy_value_discrete_table)
  have run: "target_func split self target_params target_state rng batch = Inr ?G"
    using assms(1,8-10)
    by (simp add: target_func_def val bind_error_def ndim_def broadcast_def)
  have len: "length ?G = b" using assms(8,9) by simp
  have pt: "?G ! i = f (Rn batch ! i + In batch ! i *
                         f_inv (Max ((\<lambda>j. data Q_s ! (i * k + j)) ` {..<k})))"
    if "i < b" for i
  proof -
    from assms(6,5) have l: "length (data Q_s) = b * k" by (simp add: well_shaped_def)
    with that have "length (row k (data Q_s) i) = k" by (rule row_length)
    with assms(7) have "row k (data Q_s) i \<noteq> []" by auto
    then have "row_max (row k (data Q_s) i) = Max (set (row k (data Q_s) i))"
      by (rule row_max_Max)
    also have "set (row k (data Q_s) i) = (\<lambda>j. data Q_s ! (i * k + j)) ` {..<k}"
      using that l by (rule row_set)
    finally show ?thesis using that assms(8,9) by simp
  qed
  from run len pt
  show "\<exists>G. target_func split self target_params target_state rng batch = Inr G \<and>
            length G = b \<and>
            (\<forall>i<b. G ! i =
               f (Rn batch ! i + In batch ! i *
                    f_inv (Max ((\<lambda>j. data Q_s ! (i * k + j)) ` {..<k}))))"
    by blast
next
  show "target_func split' (self\<lparr>pi_targ := p\<rparr>) (target_params(''pi_targ'' := pp))
             (target_state(''pi_targ'' := ps)) rng batch =
           target_func split self target_params target_state rng batch"
    using assms(1) by (simp add: target_func_def greedy_value_discrete_frame cong: if_cong)
qed

theorem target_func_discrete_witness:
  "target_func example_split example_QLearning2 example_params example_state 0 example_batch2 =
     Inr [7 / 2, 3 / 2]"
proof -
  let ?T = "\<lparr>shape = [2, 3], data = [1, 5, 2, - 3, - 1, - 2]\<rparr>"
  have "(\<exists>G. target_func example_split example_QLearning2 example_params example_state 0
               example_batch2 = Inr G \<and>
            length G = 2 \<and>
            (\<forall>i<2. G ! i =
               (\<lambda>x. x) (Rn example_batch2 ! i + In example_batch2 ! i *
                  (\<lambda>x. x) (Max ((\<lambda>j. data ?T ! (i * 3 + j)) ` {..<3}))))) \<and>
         target_func example_split (example_QLearning2\<lparr>pi_targ := None\<rparr>)
             (example_params(''pi_targ'' := None)) (example_state(''pi_targ'' := None)) 0
             example_batch2 =
           target_func example_split example_QLearning2 example_params example_state 0
             example_batch2"
    by (rule target_func_discrete [where k = 3 and b = 2 and ?params0.0 = "[1, 2]"
          and ?state0.0 = "[0]" and ?state1.0 = "[0]"])
       (simp_all add: example_QLearning2_def base_init_def example_Q2_def example_params_def
          example_state_def example_batch2_def well_shaped_def)
  then obtain G where
    run: "target_func example_split example_QLearning2 example_params example_state 0
            example_batch2 = Inr G"
    and len: "length G = 2"
    and pt: "\<forall>i<2. G ! i = Rn example_batch2 ! i + In example_batch2 ! i *
               Max ((\<lambda>j. data ?T ! (i * 3 + j)) ` {..<3})"
    by auto
  have three: "{..<3::nat} = {0, 1, 2}" by auto
  from pt have "G ! 0 = 7 / 2"
    by (simp add: three example_batch2_def)
  moreover from pt have "G ! 1 = 3 / 2"
    by (simp add: three example_batch2_def)
  moreover from len obtain x y where "G = [x, y]"
    by (cases G; cases "tl G") auto
  ultimately have "G = [7 / 2, 3 / 2]" by simp
  with run show ?thesis by simp
qed

lemma greedy_value_continuous_value:
  assumes "pi_targ self = Some policy"
    and "target_params ''pi_targ'' = Some pparams" and "target_state ''pi_targ'' = Some pstate"
    and "target_params ''q_targ'' = Some qparams" and "target_state ''q_targ'' = Some qstate"
    and "split rng = (rng1, key1)" and "split rng1 = (rng2, key2)"
    and "pi_function policy pparams pstate key1 s_next False = (dist_params, pstate')"
    and "function_type1 (q_targ self) qparams qstate key2 s_next
           (proba_dist_mode policy dist_params) False = (Q_sa, qstate')"
  shows "greedy_value_continuous split self target_params target_state rng s_next = Inr Q_sa"
  using assms
  by (simp add: greedy_value_continuous_def getitem_def bind_error_def next_key_def)

lemma target_func_of_value:
  assumes "(if isinstance_Discrete (action_space (q self))
            then greedy_value_discrete self target_params target_state rng (S_next batch)
            else greedy_value_continuous split self target_params target_state rng (S_next batch))
           = Inr Q_sa"
    and "shape Q_sa = [b]" and "well_shaped Q_sa"
    and "length (Rn batch) = b" and "length (In batch) = b"
    and "value_transform self = (f, f_inv)"
  shows "target_func split self target_params target_state rng batch =
           Inr (map f (map2 (+) (Rn batch) (map2 (*) (In batch) (map f_inv (data Q_sa)))))"
  using assms
  by (simp add: target_func_def bind_error_def ndim_def broadcast_def well_shaped_def)

text \<open>
  C2. For a non-discrete action space, \<^verbatim>\<open>target_func\<close> evaluates the target policy on
  \<open>S_next\<close> with the first key of the sequence, takes the mode \<open>A_next\<close> of the distribution
  it returns (a function of the distribution parameters alone, no key is drawn for it),
  evaluates the target q-function in type-1 mode at \<open>(S_next, A_next)\<close> with the second key,
  and returns the array whose entry \<open>i\<close> is \<open>f (Rn\<^sub>i + In\<^sub>i * f_inv (Q_sa\<^sub>i))\<close>; with the
  identity transform that is \<open>Rn\<^sub>i + In\<^sub>i * Q_sa\<^sub>i\<close>.
\<close>

theorem target_func_continuous:
  assumes "action_space (q self) = NonDiscrete"
    and "pi_targ self = Some policy"
    and "target_params ''pi_targ'' = Some pparams" and "target_state ''pi_targ'' = Some pstate"
    and "target_params ''q_targ'' = Some qparams" and "target_state ''q_targ'' = Some qstate"
    and "split rng = (rng1, key1)" and "split rng1 = (rng2, key2)"
    and "pi_function policy pparams pstate key1 (S_next batch) False = (dist_params, pstate')"
    and "A_next = proba_dist_mode policy dist_params"
    and "function_type1 (q_targ self) qparams qstate key2 (S_next batch) A_next False =
           (Q_sa, qstate')"
    and "shape Q_sa = [b]" and "well_shaped Q_sa"
    and "length (Rn batch) = b" and "length (In batch) = b"
    and "value_transform self = (f, f_inv)"
  shows "(\<exists>G. target_func split self target_params target_state rng batch = Inr G \<and>
            length G = b \<and>
            (\<forall>i<b. G ! i = f (Rn batch ! i + In batch ! i * f_inv (data Q_sa ! i)))) \<and>
         (\<exists>G. target_func split (self\<lparr>value_transform := (\<lambda>x. x, \<lambda>x. x)\<rparr>) target_params
                 target_state rng batch = Inr G \<and>
            length G = b \<and>
            (\<forall>i<b. G ! i = Rn batch ! i + In batch ! i * data Q_sa ! i))"
proof -
  have len: "length (data Q_sa) = b"
    using assms(12,13) by (simp add: well_shaped_def)
  have run: "target_func split self' target_params target_state rng batch =
               Inr (map g (map2 (+) (Rn batch) (map2 (*) (In batch) (map g_inv (data Q_sa)))))"
    if "action_space (q self') = NonDiscrete" and "pi_targ self' = Some policy"
      and "q_targ self' = q_targ self" and "value_transform self' = (g, g_inv)"
    for self' g g_inv
  proof (rule target_func_of_value)
    have "greedy_value_continuous split self' target_params target_state rng (S_next batch) =
            Inr Q_sa"
      using that(2) assms(3-9) assms(11) [unfolded assms(10)] unfolding that(3) [symmetric]
      by (rule greedy_value_continuous_value)
    with that(1)
    show "(if isinstance_Discrete (action_space (q self'))
            then greedy_value_discrete self' target_params target_state rng (S_next batch)
            else greedy_value_continuous split self' target_params target_state rng (S_next batch))
           = Inr Q_sa"
      by simp
  qed (use assms(12-15) that(4) in simp_all)
  have "target_func split self target_params target_state rng batch =
          Inr (map f (map2 (+) (Rn batch) (map2 (*) (In batch) (map f_inv (data Q_sa)))))"
    using assms(1,2) refl assms(16) by (rule run)
  moreover
  have "target_func split (self\<lparr>value_transform := (\<lambda>x. x, \<lambda>x. x)\<rparr>) target_params
          target_state rng batch =
          Inr (map (\<lambda>x. x) (map2 (+) (Rn batch) (map2 (*) (In batch)
                 (map (\<lambda>x. x) (data Q_sa)))))"
    by (rule run) (use assms(1,2) in simp_all)
  ultimately show ?thesis
    using len assms(14,15) by simp
qed

theorem target_func_continuous_witness:
  "\<exists>G. target_func example_split (example_QLearning NonDiscrete (Some example_Policy))
          example_params example_state 0 example_batch = Inr G \<and>
        length G = 1 \<and> G ! 0 = 1 + 99 / 100 * 8"
proof -
  let ?self = "example_QLearning NonDiscrete (Some example_Policy)"
  have "(\<exists>G. target_func example_split ?self example_params example_state 0 example_batch = Inr G \<and>
            length G = 1 \<and>
            (\<forall>i<1. G ! i = (\<lambda>x. x) (Rn example_batch ! i + In example_batch ! i *
                 (\<lambda>x. x) (data \<lparr>shape = [1], data = [8]\<rparr> ! i)))) \<and>
        (\<exists>G. target_func example_split (?self\<lparr>value_transform := (\<lambda>x. x, \<lambda>x. x)\<rparr>)
                example_params example_state 0 example_batch = Inr G \<and>
            length G = 1 \<and>
            (\<forall>i<1. G ! i = Rn example_batch ! i + In example_batch ! i *
                 data \<lparr>shape = [1], data = [8]\<rparr> ! i))"
    by (rule target_func_continuous [where policy = example_Policy and pparams = "[3]"
          and pstate = "[]" and qparams = "[1, 2]" and qstate = "[0]" and ?rng1.0 = 1
          and ?key1.0 = 2 and ?rng2.0 = 3 and ?key2.0 = 4 and dist_params = 3
          and pstate' = "[]" and A_next = 4 and qstate' = "[0]"])
       (simp_all add: example_QLearning_def base_init_def example_Q_def example_Policy_def
          example_params_def example_state_def example_batch_def example_split_def
          well_shaped_def)
  then obtain G where
    "target_func example_split ?self example_params example_state 0 example_batch = Inr G"
    "length G = 1"
    "G ! 0 = Rn example_batch ! 0 + In example_batch ! 0 * 8"
    by auto
  then show ?thesis by (auto simp add: example_batch_def)
qed

lemma broadcast_error:
  assumes "broadcast g xs ys = Inl e"
  shows "e = TypeError ''incompatible shapes for broadcasting''"
  using assms by (simp add: broadcast_def split: if_splits)

lemma max_axis1_error:
  assumes "max_axis1 x = Inl e"
  shows "\<exists>m. e = ValueError m"
  using assms by (auto simp: max_axis1_def split: list.splits if_splits)

lemma target_func_bad_rank:
  assumes "(if isinstance_Discrete (action_space (q self))
            then greedy_value_discrete self target_params target_state rng (S_next batch)
            else greedy_value_continuous split self target_params target_state rng (S_next batch))
           = Inr Q_sa"
    and "ndim Q_sa \<noteq> 1"
  shows "target_func split self target_params target_state rng batch =
           Inl (AssertionError ''bad shape'')"
  using assms by (simp add: target_func_def bind_error_def)

lemma target_func_good_rank:
  assumes "(if isinstance_Discrete (action_space (q self))
            then greedy_value_discrete self target_params target_state rng (S_next batch)
            else greedy_value_continuous split self target_params target_state rng (S_next batch))
           = Inr Q_sa"
    and "ndim Q_sa = 1"
  shows "target_func split self target_params target_state rng batch \<noteq> Inl (AssertionError msg)"
proof
  assume bad: "target_func split self target_params target_state rng batch =
                 Inl (AssertionError msg)"
  obtain f f_inv where vt: "value_transform self = (f, f_inv)"
    by (cases "value_transform self")
  let ?t = "broadcast (*) (In batch) (map f_inv (data Q_sa))"
  have run: "target_func split self target_params target_state rng batch =
               bind_error ?t (\<lambda>t. bind_error (broadcast (+) (Rn batch) t) (\<lambda>u. Inr (map f u)))"
    using assms vt by (simp add: target_func_def bind_error_def)
  show False
  proof (cases ?t)
    case (Inl e)
    with run bad have "e = AssertionError msg" by (simp add: bind_error_def)
    with broadcast_error [OF Inl] show False by simp
  next
    case (Inr t)
    show False
    proof (cases "broadcast (+) (Rn batch) t")
      case (Inl e)
      with run bad Inr have "e = AssertionError msg" by (simp add: bind_error_def)
      with broadcast_error [OF Inl] show False by simp
    next
      case Inr': (Inr u)
      with run bad Inr show False by (simp add: bind_error_def)
    qed
  qed
qed

lemma target_func_value_error:
  assumes "(if isinstance_Discrete (action_space (q self))
            then greedy_value_discrete self target_params target_state rng (S_next batch)
            else greedy_value_continuous split self target_params target_state rng (S_next batch))
           = Inl e"
  shows "target_func split self target_params target_state rng batch = Inl e"
  using assms by (simp add: target_func_def bind_error_def)

text \<open>
  C4. With the target q-function's entries present in the two dicts: in the discrete branch
  a type-2 output that is not two-dimensional makes \<^verbatim>\<open>target_func\<close> fail its assertion, and
  a two-dimensional one never leads to an assertion failure (its reduction is
  one-dimensional); in the other branch a type-1 output that is not one-dimensional makes
  it fail its assertion, and a one-dimensional one never does. Nothing is reshaped.
\<close>

theorem target_func_rank_assertions:
  assumes "target_params ''q_targ'' = Some qparams" and "target_state ''q_targ'' = Some qstate"
  shows
    "(\<forall>k Q_s st. action_space (q self) = Discrete k \<longrightarrow>
        function_type2 (q_targ self) qparams qstate rng (S_next batch) False = (Q_s, st) \<longrightarrow>
        (if ndim Q_s = 2
         then \<forall>msg. target_func split self target_params target_state rng batch \<noteq>
                Inl (AssertionError msg)
         else target_func split self target_params target_state rng batch =
                Inl (AssertionError ''bad shape''))) \<and>
     (\<forall>policy pparams pstate rng1 key1 rng2 key2 dist_params pstate' Q_sa st.
        action_space (q self) = NonDiscrete \<longrightarrow>
        pi_targ self = Some policy \<longrightarrow>
        target_params ''pi_targ'' = Some pparams \<longrightarrow>
        target_state ''pi_targ'' = Some pstate \<longrightarrow>
        split rng = (rng1, key1) \<longrightarrow> split rng1 = (rng2, key2) \<longrightarrow>
        pi_function policy pparams pstate key1 (S_next batch) False = (dist_params, pstate') \<longrightarrow>
        function_type1 (q_targ self) qparams qstate key2 (S_next batch)
          (proba_dist_mode policy dist_params) False = (Q_sa, st) \<longrightarrow>
        (if ndim Q_sa = 1
         then \<forall>msg. target_func split self target_params target_state rng batch \<noteq>
                Inl (AssertionError msg)
         else target_func split self target_params target_state rng batch =
                Inl (AssertionError ''bad shape'')))"
proof (intro conjI allI impI)
  fix k Q_s st
  assume sp: "action_space (q self) = Discrete k"
    and out: "function_type2 (q_targ self) qparams qstate rng (S_next batch) False = (Q_s, st)"
  let ?v = "greedy_value_discrete self target_params target_state rng (S_next batch)"
  have br: "(if isinstance_Discrete (action_space (q self)) then ?v
             else greedy_value_continuous split self target_params target_state rng (S_next batch))
            = ?v"
    using sp by simp
  show "if ndim Q_s = 2
        then \<forall>msg. target_func split self target_params target_state rng batch \<noteq>
               Inl (AssertionError msg)
        else target_func split self target_params target_state rng batch =
               Inl (AssertionError ''bad shape'')"
  proof (cases "ndim Q_s = 2")
    case True
    with assms out have v: "?v = max_axis1 Q_s"
      by (simp add: greedy_value_discrete_def getitem_def bind_error_def)
    have "target_func split self target_params target_state rng batch \<noteq>
            Inl (AssertionError msg)" for msg
    proof (cases "max_axis1 Q_s")
      case (Inl e)
      from max_axis1_error [OF Inl] obtain m where "e = ValueError m" ..
      moreover from br v Inl
      have "target_func split self target_params target_state rng batch = Inl e"
        by (intro target_func_value_error) simp
      ultimately show ?thesis by simp
    next
      case (Inr y)
      from br v Inr max_axis1_ndim [OF Inr] show ?thesis
        by (intro target_func_good_rank [where Q_sa = y]) simp_all
    qed
    with True show ?thesis by simp
  next
    case False
    with assms out have "?v = Inl (AssertionError ''bad shape'')"
      by (simp add: greedy_value_discrete_def getitem_def bind_error_def)
    with br have "target_func split self target_params target_state rng batch =
                    Inl (AssertionError ''bad shape'')"
      by (intro target_func_value_error) simp
    with False show ?thesis by simp
  qed
next
  fix policy pparams pstate rng1 key1 rng2 key2 dist_params pstate' Q_sa st
  assume sp: "action_space (q self) = NonDiscrete"
    and h: "pi_targ self = Some policy" "target_params ''pi_targ'' = Some pparams"
      "target_state ''pi_targ'' = Some pstate" "split rng = (rng1, key1)"
      "split rng1 = (rng2, key2)"
      "pi_function policy pparams pstate key1 (S_next batch) False = (dist_params, pstate')"
      "function_type1 (q_targ self) qparams qstate key2 (S_next batch)
         (proba_dist_mode policy dist_params) False = (Q_sa, st)"
  have "greedy_value_continuous split self target_params target_state rng (S_next batch) =
          Inr Q_sa"
    using h(1-3) assms h(4-7) by (rule greedy_value_continuous_value)
  with sp have br: "(if isinstance_Discrete (action_space (q self))
            then greedy_value_discrete self target_params target_state rng (S_next batch)
            else greedy_value_continuous split self target_params target_state rng (S_next batch))
           = Inr Q_sa"
    by simp
  show "if ndim Q_sa = 1
        then \<forall>msg. target_func split self target_params target_state rng batch \<noteq>
               Inl (AssertionError msg)
        else target_func split self target_params target_state rng batch =
               Inl (AssertionError ''bad shape'')"
    using target_func_good_rank [OF br] target_func_bad_rank [OF br] by simp
qed

theorem target_func_rank_assertions_witness:
  "target_func example_split (example_bad_QLearning (Discrete 3) None) example_params
       example_state 0 example_batch = Inl (AssertionError ''bad shape'') \<and>
   target_func example_split (example_bad_QLearning NonDiscrete (Some example_Policy))
       example_params example_state 0 example_batch = Inl (AssertionError ''bad shape'') \<and>
   target_func example_split (example_QLearning (Discrete 3) None) example_params
       example_state 0 example_batch \<noteq> Inl (AssertionError ''bad shape'') \<and>
   target_func example_split (example_QLearning NonDiscrete (Some example_Policy))
       example_params example_state 0 example_batch \<noteq> Inl (AssertionError ''bad shape'')"
proof -
  have p: "example_params ''q_targ'' = Some [1, 2]"
    and s: "example_state ''q_targ'' = Some [0]"
    by (simp_all add: example_params_def example_state_def)
  note ranks = target_func_rank_assertions
    [where target_params = example_params and target_state = example_state, OF p s]
  note discrete = ranks [THEN conjunct1, rule_format]
  note continuous = ranks [THEN conjunct2, rule_format]
  note defs = example_QLearning_def example_bad_QLearning_def base_init_def example_Q_def
    example_bad_Q_def example_Policy_def example_params_def example_state_def
    example_batch_def example_split_def
  have "if ndim \<lparr>shape = [3], data = [1, 5, 2]\<rparr> = 2
        then \<forall>msg. target_func example_split (example_bad_QLearning (Discrete 3) None)
               example_params example_state 0 example_batch \<noteq> Inl (AssertionError msg)
        else target_func example_split (example_bad_QLearning (Discrete 3) None)
               example_params example_state 0 example_batch = Inl (AssertionError ''bad shape'')"
    by (rule discrete [where k = 3 and st = "[0]"]) (simp_all add: defs)
  then have 1: "target_func example_split (example_bad_QLearning (Discrete 3) None)
               example_params example_state 0 example_batch = Inl (AssertionError ''bad shape'')"
    by (simp add: ndim_def)
  have "if ndim \<lparr>shape = [1, 1], data = [8]\<rparr> = 1
        then \<forall>msg. target_func example_split
               (example_bad_QLearning NonDiscrete (Some example_Policy))
               example_params example_state 0 example_batch \<noteq> Inl (AssertionError msg)
        else target_func example_split (example_bad_QLearning NonDiscrete (Some example_Policy))
               example_params example_state 0 example_batch = Inl (AssertionError ''bad shape'')"
    by (rule continuous [where policy = example_Policy and pparams = "[3]" and pstate = "[]"
          and ?rng1.0 = 1 and ?key1.0 = 2 and ?rng2.0 = 3 and ?key2.0 = 4 and dist_params = 3
          and pstate' = "[]" and st = "[0]"])
       (simp_all add: defs)
  then have 2: "target_func example_split
               (example_bad_QLearning NonDiscrete (Some example_Policy))
               example_params example_state 0 example_batch = Inl (AssertionError ''bad shape'')"
    by (simp add: ndim_def)
  have "if ndim \<lparr>shape = [1, 3], data = [1, 5, 2]\<rparr> = 2
        then \<forall>msg. target_func example_split (example_QLearning (Discrete 3) None)
               example_params example_state 0 example_batch \<noteq> Inl (AssertionError msg)
        else target_func example_split (example_QLearning (Discrete 3) None)
               example_params example_state 0 example_batch = Inl (AssertionError ''bad shape'')"
    by (rule discrete [where k = 3 and st = "[0]"]) (simp_all add: defs)
  then have 3: "target_func example_split (example_QLearning (Discrete 3) None)
               example_params example_state 0 example_batch \<noteq> Inl (AssertionError ''bad shape'')"
    by (simp add: ndim_def)
  have "if ndim \<lparr>shape = [1], data = [8]\<rparr> = 1
        then \<forall>msg. target_func example_split
               (example_QLearning NonDiscrete (Some example_Policy))
               example_params example_state 0 example_batch \<noteq> Inl (AssertionError msg)
        else target_func example_split (example_QLearning NonDiscrete (Some example_Policy))
               example_params example_state 0 example_batch = Inl (AssertionError ''bad shape'')"
    by (rule continuous [where policy = example_Policy and pparams = "[3]" and pstate = "[]"
          and ?rng1.0 = 1 and ?key1.0 = 2 and ?rng2.0 = 3 and ?key2.0 = 4 and dist_params = 3
          and pstate' = "[]" and st = "[0]"])
       (simp_all add: defs)
  then have 4: "target_func example_split
               (example_QLearning NonDiscrete (Some example_Policy))
               example_params example_state 0 example_batch \<noteq> Inl (AssertionError ''bad shape'')"
    by (simp add: ndim_def)
  from 1 2 3 4 show ?thesis by simp
qed

text \<open>
  C5. Two transition batches with the same \<open>Rn\<close>, \<open>In\<close> and \<open>S_next\<close> give the same
  target (or the same error) under the same updater, target parameters, target state and
  key, whatever their \<open>S\<close>, \<open>A\<close>, \<open>logp\<close>, \<open>W\<close> and \<open>idx\<close> are.
\<close>

theorem target_func_reads_Rn_In_S_next:
  assumes "Rn batch1 = Rn batch2" and "In batch1 = In batch2"
    and "S_next batch1 = S_next batch2"
  shows "target_func split self target_params target_state rng batch1 =
         target_func split self target_params target_state rng batch2"
  using assms by (simp add: target_func_def)

theorem target_func_reads_Rn_In_S_next_witness:
  "target_func example_split (example_QLearning (Discrete 3) None) example_params
       example_state 0 example_batch =
   target_func example_split (example_QLearning (Discrete 3) None) example_params
       example_state 0 example_batch' \<and>
   A example_batch \<noteq> A example_batch'"
proof
  show "target_func example_split (example_QLearning (Discrete 3) None) example_params
       example_state 0 example_batch =
   target_func example_split (example_QLearning (Discrete 3) None) example_params
       example_state 0 example_batch'"
    by (rule target_func_reads_Rn_In_S_next) (simp_all add: example_batch_def example_batch'_def)
  show "A example_batch \<noteq> A example_batch'"
    by (simp add: example_batch_def example_batch'_def)
qed

section \<open>Soft updates\<close>

lemma blend_length:
  assumes "length targ = length src"
  shows "length (blend tau targ src) = length targ"
  using assms by (simp add: blend_def)

lemma blend_nth:
  assumes "length targ = length src" and "i < length targ"
  shows "blend tau targ src ! i = (1 - tau) * targ ! i + tau * src ! i"
  using assms by (simp add: blend_def)

lemma blend_one:
  assumes "length targ = length src"
  shows "blend 1 targ src = src"
  using assms unfolding blend_def by (induction targ src rule: list_induct2) simp_all

lemma blend_zero:
  assumes "length targ = length src"
  shows "blend 0 targ src = targ"
  using assms unfolding blend_def by (induction targ src rule: list_induct2) simp_all

lemma blend_same: "blend tau xs xs = xs"
proof -
  have "(1 - tau) * x + tau * x = x" for x :: real
    by (simp add: algebra_simps)
  then show ?thesis
    unfolding blend_def by (induction xs) simp_all
qed

text \<open>
  C6. For a target and a source of the same architecture and every \<open>tau\<close>, \<^verbatim>\<open>soft_update\<close>
  sets every parameter of the target to \<open>(1 - tau) * target + tau * source\<close>, and the
  function state likewise; with \<open>tau = 1\<close> the target's parameters and function state
  become the source's, with \<open>tau = 0\<close> the target is unchanged; and the object the call
  reads as its source is the same after the call as before, also when target and source
  are one object.
\<close>

theorem soft_update_blends:
  assumes "length (params targ) = length (params src)"
    and "length (function_state targ) = length (function_state src)"
  shows "length (params (soft_update targ src tau)) = length (params targ) \<and>
         (\<forall>i<length (params targ).
            params (soft_update targ src tau) ! i =
              (1 - tau) * params targ ! i + tau * params src ! i) \<and>
         length (function_state (soft_update targ src tau)) = length (function_state targ) \<and>
         (\<forall>i<length (function_state targ).
            function_state (soft_update targ src tau) ! i =
              (1 - tau) * function_state targ ! i + tau * function_state src ! i) \<and>
         params (soft_update targ src 1) = params src \<and>
         function_state (soft_update targ src 1) = function_state src \<and>
         soft_update targ src 0 = targ \<and>
         soft_update_at store t s tau s = store s"
proof -
  have "soft_update_at store t s tau s = store s"
    by (simp add: soft_update_at_def soft_update_def blend_same)
  then show ?thesis
    using assms
    by (simp add: soft_update_def blend_length blend_nth blend_one blend_zero)
qed

theorem soft_update_blends_witness:
  "params (soft_update (example_Q (Discrete 3)) example_source (1 / 2)) ! 0 = 2 \<and>
   params (soft_update (example_Q (Discrete 3)) example_source 1) = [3, 5] \<and>
   function_state (soft_update (example_Q (Discrete 3)) example_source 1) = [1] \<and>
   soft_update (example_Q (Discrete 3)) example_source 0 = example_Q (Discrete 3) \<and>
   soft_update_at (\<lambda>i. if i = 0 then example_Q (Discrete 3) else example_source) 0 1 (1 / 2) 1 =
     example_source"
proof -
  have l: "length (params (example_Q (Discrete 3))) = length (params example_source)"
      "length (function_state (example_Q (Discrete 3))) = length (function_state example_source)"
    by (simp_all add: example_Q_def example_source_def)
  note b = soft_update_blends
    [OF l, where store = "\<lambda>i. if i = 0 then example_Q (Discrete 3) else example_source"
      and t = 0 and s = 1]
  have "0 < length (params (example_Q (Discrete 3)))"
    by (simp add: example_Q_def)
  with b [of "1 / 2"]
  have "params (soft_update (example_Q (Discrete 3)) example_source (1 / 2)) ! 0 =
      (1 - 1 / 2) * params (example_Q (Discrete 3)) ! 0 + 1 / 2 * params example_source ! 0"
    by blast
  then have "params (soft_update (example_Q (Discrete 3)) example_source (1 / 2)) ! 0 = 2"
    by (simp add: example_Q_def example_source_def)
  moreover from b [of "1 / 2"]
  have "soft_update_at (\<lambda>i. if i = 0 then example_Q (Discrete 3) else example_source) 0 1
          (1 / 2) 1 = example_source"
    by simp
  ultimately show ?thesis
    using b [of 1] by (simp add: example_source_def)
qed

section \<open>The worker's trace\<close>

lemma trace_q_targ:
  "q_targ (q_updater (trace tracer_add tracer_flush td_error buffer_add push_beta self
                        s0 a0 r0 done0 logp0)) =
     soft_update (q_targ (q_updater self)) (q (q_updater self)) (1 / 1000)"
  by (simp add: trace_def Let_def split: prod.split)

lemma trace_q:
  "q (q_updater (trace tracer_add tracer_flush td_error buffer_add push_beta self
                   s0 a0 r0 done0 logp0)) = q (q_updater self)"
  by (simp add: trace_def Let_def split: prod.split)

lemma trace_all_q_targ:
  "q (q_updater (trace_all tracer_add tracer_flush td_error buffer_add push_beta self ts)) =
     q (q_updater self) \<and>
   q_targ (q_updater (trace_all tracer_add tracer_flush td_error buffer_add push_beta self ts)) =
     ((\<lambda>targ. soft_update targ (q (q_updater self)) (1 / 1000)) ^^ length ts)
       (q_targ (q_updater self))"
proof (induction ts arbitrary: self)
  case Nil
  show ?case by simp
next
  case (Cons t ts)
  let ?f = "\<lambda>targ. soft_update targ (q (q_updater self)) (1 / 1000)"
  have "(?f ^^ length ts) (?f x) = ?f ((?f ^^ length ts) x)" for x
    by (rule funpow_swap1 [symmetric])
  then show ?case
    by (simp add: Cons.IH trace_q trace_q_targ)
qed

text \<open>
  C9. Every call of \<^verbatim>\<open>ApexWorker.trace\<close>, whether \<^verbatim>\<open>done\<close> holds or not, leaves the
  target q-function equal to \<^verbatim>\<open>q_targ.soft_update(q, tau=0.001)\<close> of the one before the
  call, and leaves \<^verbatim>\<open>q\<close> as it was; so after a run of \<open>k\<close> traced transitions the target
  has been soft-updated exactly \<open>k\<close> times.
\<close>

theorem trace_soft_update:
  "q_targ (q_updater (trace tracer_add tracer_flush td_error buffer_add push_beta self
                        s0 a0 r0 done0 logp0)) =
     soft_update (q_targ (q_updater self)) (q (q_updater self)) (1 / 1000) \<and>
   q (q_updater (trace tracer_add tracer_flush td_error buffer_add push_beta self
                   s0 a0 r0 done0 logp0)) = q (q_updater self) \<and>
   q_targ (q_updater (trace_all tracer_add tracer_flush td_error buffer_add push_beta self ts)) =
     ((\<lambda>targ. soft_update targ (q (q_updater self)) (1 / 1000)) ^^ length ts)
       (q_targ (q_updater self))"
  by (simp add: trace_q trace_q_targ trace_all_q_targ)

theorem trace_soft_update_witness:
  "params (q_targ (q_updater (example_trace example_worker 0 0 1 False 0))) =
     [1 + 2 / 1000, 2 + 3 / 1000] \<and>
   params (q_targ (q_updater (example_trace example_worker 0 0 1 True 0))) =
     [1 + 2 / 1000, 2 + 3 / 1000]"
proof -
  have "params (soft_update (q_targ (q_updater example_worker)) (q (q_updater example_worker))
          (1 / 1000)) = [1 + 2 / 1000, 2 + 3 / 1000]"
    by (simp add: example_worker_def base_init_def example_source_def example_Q_def
        soft_update_def blend_def)
  then show ?thesis
    unfolding example_trace_def
    by (simp only: trace_soft_update [THEN conjunct1] simp_thms)
qed

section \<open>The meta-policy wrapper's step\<close>

lemma reset_ok:
  assumes "wrapper_ok self arms0"
  shows "wrapper_ok (snd (reset env_reset self)) arms0"
    and "self_s (snd (reset env_reset self)) \<noteq> None"
  using assms by (simp_all add: reset_def wrapper_ok_def split: prod.split)

lemma tuple_getitem_in_range:
  assumes "0 \<le> i" and "i < int (length xs)"
  shows "tuple_getitem xs i = Inr (xs ! nat i)"
  using assms by (simp add: tuple_getitem_def)

lemma step_fails:
  assumes "wrapper_ok self arms0"
    and "\<not> contains (Discrete (length arms0)) a_meta \<or> self_s self = None"
  shows "\<exists>msg. step env_step self a_meta = Inl (AssertionError msg)"
  using assms by (auto simp: step_def wrapper_ok_def)

lemma step_returns:
  assumes ok: "wrapper_ok self arms0"
    and mem: "contains (Discrete (length arms0)) a_meta"
    and cur: "self_s self = Some s0"
  shows "\<exists>s1 r0 done0 info self1.
           step env_step self a_meta = Inr ((s1, r0, done0, info), self1) \<and>
           info ''a'' = Some (InfoAction
             (case arms0 ! nat a_meta of ArmWithLogp g \<Rightarrow> fst (g s0) | ArmPlain g \<Rightarrow> g s0)) \<and>
           info ''logp'' = Some (InfoFloat
             (case arms0 ! nat a_meta of ArmWithLogp g \<Rightarrow> snd (g s0) | ArmPlain g \<Rightarrow> 0)) \<and>
           wrapper_ok self1 arms0 \<and> self_s self1 = Some s1"
proof -
  from mem have rng: "0 \<le> a_meta" "a_meta < int (length arms0)" by simp_all
  from ok have a: "arms self = arms0" and sp: "meta_action_space self = Discrete (length arms0)"
    by (simp_all add: wrapper_ok_def)
  from rng a have get: "tuple_getitem (arms self) a_meta = Inr (arms0 ! nat a_meta)"
    by (simp add: tuple_getitem_in_range)
  show ?thesis
  proof (cases "arms0 ! nat a_meta")
    case (ArmWithLogp g)
    obtain a0 l0 where g: "g s0 = (a0, l0)" by (cases "g s0")
    obtain s1 r0 done0 info0 env1 where st: "env_step (env self) a0 = ((s1, r0, done0, info0), env1)"
      by (cases "env_step (env self) a0") auto
    show ?thesis
      using mem cur sp a get ArmWithLogp g st
      by (simp add: step_def bind_error_def wrapper_ok_def)
  next
    case (ArmPlain g)
    obtain s1 r0 done0 info0 env1 where st: "env_step (env self) (g s0) = ((s1, r0, done0, info0), env1)"
      by (cases "env_step (env self) (g s0)") auto
    show ?thesis
      using mem cur sp a get ArmPlain st
      by (simp add: step_def bind_error_def wrapper_ok_def)
  qed
qed

lemma run_ok:
  assumes "run env_reset env_step self cs = Inr self1" and "wrapper_ok self arms0"
  shows "wrapper_ok self1 arms0 \<and> (self_s self1 \<noteq> None \<longleftrightarrow> self_s self \<noteq> None \<or> Reset \<in> set cs)"
  using assms
proof (induction env_reset env_step self cs rule: run.induct)
  case (1 env_reset env_step self)
  then show ?case by simp
next
  case (2 env_reset env_step self cs)
  from "2.prems" have r: "run env_reset env_step (snd (reset env_reset self)) cs = Inr self1"
    by simp
  from reset_ok [OF "2.prems"(2)] "2.IH" [OF r] show ?case by simp
next
  case (3 env_reset env_step self a_meta cs)
  from "3.prems"(1) obtain out self2 where
    st: "step env_step self a_meta = Inr (out, self2)"
    and r: "run env_reset env_step self2 cs = Inr self1"
    by (auto simp: bind_error_def split: sum.splits)
  have "\<not> (\<not> contains (Discrete (length arms0)) a_meta \<or> self_s self = None)"
  proof
    assume "\<not> contains (Discrete (length arms0)) a_meta \<or> self_s self = None"
    with "3.prems"(2) have "\<exists>msg. step env_step self a_meta = Inl (AssertionError msg)"
      by (rule step_fails)
    with st show False by simp
  qed
  then have mem: "contains (Discrete (length arms0)) a_meta" and cur: "self_s self \<noteq> None"
    by simp_all
  from cur obtain s0 where "self_s self = Some s0" by auto
  from step_returns [OF "3.prems"(2) mem this, of env_step] st
  have ok2: "wrapper_ok self2 arms0" and cur2: "self_s self2 \<noteq> None" by auto
  from "3.IH" [OF r ok2] cur2 cur show ?case by simp
qed

text \<open>
  C10. On a wrapper built by the constructor and driven through any history of successful
  calls, \<^verbatim>\<open>step(a_meta)\<close> fails an assertion if \<^verbatim>\<open>reset\<close> was never called or \<open>a_meta\<close>
  is not in \<^verbatim>\<open>Discrete(len(arms))\<close>. If \<^verbatim>\<open>reset\<close> was called and \<open>a_meta\<close> is in that
  space, \<^verbatim>\<open>step\<close> returns, and the returned info dict holds under \<^verbatim>\<open>'a'\<close> the action the
  selected arm gave for the stored state and under \<^verbatim>\<open>'logp'\<close> its log-propensity, which is
  \<open>0\<close> for an arm that takes no \<^verbatim>\<open>return_logp\<close>.
\<close>

theorem step_assertions:
  assumes "run env_reset env_step (MetaPolicyEnv_init env0 arms0) calls = Inr self"
  shows "(Reset \<notin> set calls \<or> \<not> contains (Discrete (length arms0)) a_meta \<longrightarrow>
            (\<exists>msg. step env_step self a_meta = Inl (AssertionError msg))) \<and>
         (Reset \<in> set calls \<and> contains (Discrete (length arms0)) a_meta \<longrightarrow>
            (\<exists>s0 s1 r0 done0 info self1.
               self_s self = Some s0 \<and>
               step env_step self a_meta = Inr ((s1, r0, done0, info), self1) \<and>
               info ''a'' = Some (InfoAction
                 (case arms0 ! nat a_meta of ArmWithLogp g \<Rightarrow> fst (g s0) | ArmPlain g \<Rightarrow> g s0)) \<and>
               info ''logp'' = Some (InfoFloat
                 (case arms0 ! nat a_meta of ArmWithLogp g \<Rightarrow> snd (g s0) | ArmPlain g \<Rightarrow> 0))))"
proof -
  have init: "wrapper_ok (MetaPolicyEnv_init env0 arms0) arms0"
    and none: "self_s (MetaPolicyEnv_init env0 arms0) = None"
    by (simp_all add: wrapper_ok_def MetaPolicyEnv_init_def)
  from run_ok [OF assms init] none
  have ok: "wrapper_ok self arms0" and cur: "self_s self \<noteq> None \<longleftrightarrow> Reset \<in> set calls"
    by simp_all
  have fails: "\<exists>msg. step env_step self a_meta = Inl (AssertionError msg)"
    if "Reset \<notin> set calls \<or> \<not> contains (Discrete (length arms0)) a_meta"
  proof -
    from that cur have "\<not> contains (Discrete (length arms0)) a_meta \<or> self_s self = None"
      by auto
    with ok show ?thesis by (rule step_fails)
  qed
  have returns: "\<exists>s0 s1 r0 done0 info self1.
               self_s self = Some s0 \<and>
               step env_step self a_meta = Inr ((s1, r0, done0, info), self1) \<and>
               info ''a'' = Some (InfoAction
                 (case arms0 ! nat a_meta of ArmWithLogp g \<Rightarrow> fst (g s0) | ArmPlain g \<Rightarrow> g s0)) \<and>
               info ''logp'' = Some (InfoFloat
                 (case arms0 ! nat a_meta of ArmWithLogp g \<Rightarrow> snd (g s0) | ArmPlain g \<Rightarrow> 0))"
    if "Reset \<in> set calls" and mem: "contains (Discrete (length arms0)) a_meta"
  proof -
    from that(1) cur obtain s0 where s0: "self_s self = Some s0" by auto
    from step_returns [OF ok mem s0, of env_step] s0 show ?thesis by blast
  qed
  from fails returns show ?thesis by blast
qed

theorem step_assertions_witness:
  "(\<exists>msg. step example_env_step (MetaPolicyEnv_init 0 example_arms) 0 =
            Inl (AssertionError msg)) \<and>
   (\<exists>msg. step example_env_step (snd (reset example_env_reset (MetaPolicyEnv_init 0 example_arms))) 2 =
            Inl (AssertionError msg)) \<and>
   (\<exists>s1 r0 done0 info self1.
      step example_env_step (snd (reset example_env_reset (MetaPolicyEnv_init 0 example_arms))) 0 =
        Inr ((s1, r0, done0, info), self1) \<and>
      info ''a'' = Some (InfoAction 10) \<and> info ''logp'' = Some (InfoFloat 0)) \<and>
   (\<exists>s1 r0 done0 info self1.
      step example_env_step (snd (reset example_env_reset (MetaPolicyEnv_init 0 example_arms))) 1 =
        Inr ((s1, r0, done0, info), self1) \<and>
      info ''a'' = Some (InfoAction 20) \<and> info ''logp'' = Some (InfoFloat (- 1 / 2)))"
proof -
  let ?init = "MetaPolicyEnv_init 0 example_arms :: (nat, nat, nat) MetaPolicyEnv"
  let ?after = "snd (reset example_env_reset ?init)"
  have r0: "run example_env_reset example_env_step ?init [] = Inr ?init"
    and r1: "run example_env_reset example_env_step ?init [Reset] = Inr ?after"
    by simp_all
  have s: "self_s ?after = Some 0"
    by (simp add: reset_def example_env_reset_def)
  have len: "length example_arms = 2" and a0: "example_arms ! 0 = ArmPlain (\<lambda>s0. s0 + 10)"
    and a1: "example_arms ! Suc 0 = ArmWithLogp (\<lambda>s0. (s0 + 20, - 1 / 2))"
    by (simp_all add: example_arms_def)
  from step_assertions [OF r0, of 0]
  have 1: "\<exists>msg. step example_env_step ?init 0 = Inl (AssertionError msg)"
    by simp
  from step_assertions [OF r1, of 2]
  have 2: "\<exists>msg. step example_env_step ?after 2 = Inl (AssertionError msg)"
    by (simp add: len)
  from step_assertions [OF r1, of 0]
  have 3: "\<exists>s1 r0 done0 info self1.
      step example_env_step ?after 0 = Inr ((s1, r0, done0, info), self1) \<and>
      info ''a'' = Some (InfoAction 10) \<and> info ''logp'' = Some (InfoFloat 0)"
    by (simp add: len a0 s)
  from step_assertions [OF r1, of 1]
  have 4: "\<exists>s1 r0 done0 info self1.
      step example_env_step ?after 1 = Inr ((s1, r0, done0, info), self1) \<and>
      info ''a'' = Some (InfoAction 20) \<and> info ''logp'' = Some (InfoFloat (- 1 / 2))"
    by (simp add: len a1 s)
  from 1 2 3 4 show ?thesis by blast
qed

section \<open>Single-step traces\<close>










end
